theory Spec2Isabelle
  imports Main "HOL-Library.Word"
begin

section \<open>The Clang importer: module wrappers, name translation and lookup\<close>

text \<open>
  A shallow embedding of \<^verbatim>\<open>lib/ClangImporter/ClangImporter.cpp\<close>. Objects that the
  C++ code allocates become entries of a heap list and their pointers the indices into
  it; a null pointer is \<open>None\<close>. The Clang front end, the declaration importer and the
  \<^verbatim>\<open>ASTContext\<close> are collaborators whose code is not part of the file: what the file
  calls on them is a field of the record \<open>env\<close>.
\<close>

subsection \<open>Clang modules\<close>

text \<open>
  A \<^verbatim>\<open>clang::Module\<close> has a \<^verbatim>\<open>Name\<close> and a \<^verbatim>\<open>Parent\<close> (null for a top-level
  module). The front end keeps one module object per path of names, so the value stands
  for the pointer.
\<close>

datatype clang_Module = ClangMod (Module_Name: string) (Module_Parent: "clang_Module option")

definition isSubModule :: "clang_Module \<Rightarrow> bool" where
  "isSubModule M = (Module_Parent M \<noteq> None)"

fun getTopLevelModule :: "clang_Module \<Rightarrow> clang_Module" where
  "getTopLevelModule (ClangMod n None) = ClangMod n None"
| "getTopLevelModule (ClangMod n (Some P)) = getTopLevelModule P"

text \<open>
  \<^verbatim>\<open>clang::Module::getFullModuleName\<close> is Clang's: it walks the parents, collects the
  names and joins them from the top-level module down with a dot between two names.
\<close>

fun moduleNames :: "clang_Module \<Rightarrow> string list" where
  "moduleNames (ClangMod n None) = [n]"
| "moduleNames (ClangMod n (Some P)) = moduleNames P @ [n]"

fun joinDotted :: "string list \<Rightarrow> string" where
  "joinDotted [] = []"
| "joinDotted [n] = n"
| "joinDotted (n # m # ns) = n @ ''.'' @ joinDotted (m # ns)"

definition getFullModuleName :: "clang_Module \<Rightarrow> string" where
  "getFullModuleName M = joinDotted (moduleNames M)"

subsection \<open>The importer's state\<close>

text \<open>\<^verbatim>\<open>llvm::PointerIntPair<T *, 1, bool>\<close>: a nullable pointer and one bit.\<close>

record 'p PointerIntPair =
  getPointer :: "'p option"
  getInt :: bool

definition nullPair :: "'p PointerIntPair" where
  "nullPair = \<lparr>getPointer = None, getInt = False\<rparr>"

type_synonym Component_ptr = nat
type_synonym ClangModule_ptr = nat

text \<open>
  A \<^verbatim>\<open>Module *\<close> of the host compiler points to a \<^verbatim>\<open>ClangModule\<close> or to a module of
  another kind; \<^verbatim>\<open>isa<ClangModule>\<close> reads the tag.
\<close>

datatype Module_ref = ClangModuleRef ClangModule_ptr | OtherModuleRef nat

fun isa_ClangModule :: "Module_ref \<Rightarrow> bool" where
  "isa_ClangModule (ClangModuleRef _) = True"
| "isa_ClangModule (OtherModuleRef _) = False"

text \<open>
  The fields a \<^verbatim>\<open>ClangModule\<close> gets from its constructor and its base class
  \<^verbatim>\<open>LoadedModule\<close>. The owner is left out: there is one importer.
\<close>

record ClangModule =
  Name :: string
  DebugModuleName :: string
  Comp :: Component_ptr
  clangModule :: clang_Module
  adapterModule :: "Module_ref PointerIntPair"

text \<open>
  \<^verbatim>\<open>ClangImporter::Implementation\<close> together with the parts of the \<^verbatim>\<open>ASTContext\<close> the
  file writes: the objects allocated in the context (\<open>Modules\<close>, and the number of
  \<open>Components\<close>), its generation and its table of loaded modules. The counters are
  \<^verbatim>\<open>unsigned\<close>. Two fields are traces and not data of the program: \<open>Traversed\<close> lists
  the wrappers \<^verbatim>\<open>forAllVisibleModules\<close> was called on, \<open>getModule_calls\<close> the names
  \<^verbatim>\<open>ASTContext::getModule\<close> was asked for.
\<close>

record Implementation =
  ModuleWrappers :: "clang_Module \<rightharpoonup> ClangModule_ptr PointerIntPair"
  Generation :: "32 word"
  ImportCounter :: "32 word"
  firstClangModule :: "ClangModule_ptr option"
  Modules :: "ClangModule list"
  Components :: nat
  CurrentGeneration :: "32 word"
  LoadedModules :: "string \<rightharpoonup> Module_ref"
  Traversed :: "ClangModule_ptr list"
  getModule_calls :: "string list"

subsection \<open>Declarations\<close>

type_synonym clang_Decl = nat
type_synonym clang_Macro = nat
type_synonym DeclContext_ref = nat

text \<open>
  The class of a host declaration, as far as the file looks at it:
  \<^verbatim>\<open>TypeDecl\<close> derives from \<^verbatim>\<open>ValueDecl\<close>, which derives from \<^verbatim>\<open>Decl\<close>.
\<close>

datatype DeclClass = Class_TypeDecl | Class_ValueDecl | Class_Decl

record Decl =
  declId :: nat
  declClass :: DeclClass
  getDeclContext :: DeclContext_ref

definition isa_ValueDecl :: "Decl \<Rightarrow> bool" where
  "isa_ValueDecl D = (declClass D \<noteq> Class_Decl)"

definition isa_TypeDecl :: "Decl \<Rightarrow> bool" where
  "isa_TypeDecl D = (declClass D = Class_TypeDecl)"

datatype TokenKind = tok_identifier | tok_keyword

datatype LookupNameKind = LookupOrdinaryName | LookupObjCProtocolName | LookupTagName

datatype NLKind = UnqualifiedLookup | QualifiedLookup

subsection \<open>The collaborators\<close>

text \<open>
  What the file calls outside itself.
  \<^item> \<open>CI_loadModule\<close>: \<^verbatim>\<open>CompilerInstance::loadModule\<close>, given the offset of the import
    location and the path; null when Clang cannot load the module.
  \<^item> \<open>visit\<close>: the body of \<^verbatim>\<open>Module::forAllVisibleModules\<close> with the empty callback; it
    may create wrappers and adapters, so it maps a state to a state.
  \<^item> \<open>isOperator\<close>: \<^verbatim>\<open>Identifier::isOperator\<close>.
  \<^item> \<open>getTokenID\<close>: the token kind of the identifier of that spelling in Clang's table.
  \<^item> \<open>hasMacroDefinition\<close>, \<open>getMacroInfo\<close>, \<open>importMacro\<close>: the macro of an identifier
    and its import.
  \<^item> \<open>LookupName\<close>: \<^verbatim>\<open>Sema::LookupName\<close> in the global scope; \<open>None\<close> when it returns
    false, else the declarations of the lookup result.
  \<^item> \<open>getUnderlyingDecl\<close>, \<open>importDecl\<close>: the declaration importer.
  \<^item> \<open>getSwiftModule\<close>: the standard library module, as a declaration context.
  \<^item> \<open>Ctx_getModule\<close>: \<^verbatim>\<open>ASTContext::getModule\<close> for a one-segment path.
\<close>

record env =
  CI_loadModule :: "32 word \<Rightarrow> string list \<Rightarrow> clang_Module option"
  visit :: "ClangModule_ptr \<Rightarrow> string list \<Rightarrow> Implementation \<Rightarrow> Implementation"
  isOperator :: "string \<Rightarrow> bool"
  getTokenID :: "string \<Rightarrow> TokenKind"
  hasMacroDefinition :: "string \<Rightarrow> bool"
  getMacroInfo :: "string \<Rightarrow> clang_Macro option"
  importMacro :: "string \<Rightarrow> clang_Macro \<Rightarrow> Decl option"
  LookupName :: "string \<Rightarrow> LookupNameKind \<Rightarrow> clang_Decl list option"
  getUnderlyingDecl :: "clang_Decl \<Rightarrow> clang_Decl"
  importDecl :: "clang_Decl \<Rightarrow> Decl option"
  getSwiftModule :: DeclContext_ref
  Ctx_getModule :: "Implementation \<Rightarrow> string \<Rightarrow> Module_ref option"

subsection \<open>Allocation\<close>

text \<open>\<^verbatim>\<open>new (SwiftContext.Allocate<Component>(1)) Component()\<close>\<close>

definition new_Component :: "Implementation \<Rightarrow> Component_ptr \<times> Implementation" where
  "new_Component s = (Components s, s\<lparr>Components := Components s + 1\<rparr>)"

text \<open>
  The constructor \<^verbatim>\<open>ClangModule::ClangModule\<close>: the module's identifier is
  \<^verbatim>\<open>clangModule->Name\<close>, the debug name is the string handed in, and the adapter is
  not resolved yet.
\<close>

definition ClangModule_ctor :: "string \<Rightarrow> Component_ptr \<Rightarrow> clang_Module \<Rightarrow> ClangModule" where
  "ClangModule_ctor debugName cmp M =
     \<lparr>Name = Module_Name M, DebugModuleName = debugName, Comp = cmp,
      clangModule = M, adapterModule = nullPair\<rparr>"

definition new_ClangModule ::
  "string \<Rightarrow> Component_ptr \<Rightarrow> clang_Module \<Rightarrow> Implementation \<Rightarrow> ClangModule_ptr \<times> Implementation" where
  "new_ClangModule debugName cmp M s =
     (length (Modules s), s\<lparr>Modules := Modules s @ [ClangModule_ctor debugName cmp M]\<rparr>)"

subsection \<open>The wrapper cache\<close>

text \<open>
  \<^verbatim>\<open>ModuleWrappers[M]\<close>: the entry of the key, a null pair when the key is new. Both
  callers write the entry back before they return whenever they change it.
\<close>

definition cacheEntry :: "Implementation \<Rightarrow> clang_Module \<Rightarrow> ClangModule_ptr PointerIntPair" where
  "cacheEntry s M = (case ModuleWrappers s M of None \<Rightarrow> nullPair | Some e \<Rightarrow> e)"

definition setEntry ::
  "clang_Module \<Rightarrow> ClangModule_ptr PointerIntPair \<Rightarrow> Implementation \<Rightarrow> Implementation" where
  "setEntry M e s = s\<lparr>ModuleWrappers := (ModuleWrappers s)(M \<mapsto> e)\<rparr>"

text \<open>\<^verbatim>\<open>ClangImporter::Implementation::getWrapperModule\<close>\<close>

definition getWrapperModule ::
  "clang_Module \<Rightarrow> Component_ptr option \<Rightarrow> Implementation \<Rightarrow> ClangModule_ptr \<times> Implementation" where
  "getWrapperModule underlying component s =
     (let entry = cacheEntry s underlying in
      case getPointer entry of
        Some cachedModule \<Rightarrow> (cachedModule, s)
      | None \<Rightarrow>
          (let (component', s1) =
                 (case component of None \<Rightarrow> new_Component s | Some c \<Rightarrow> (c, s));
               (result, s2) =
                 new_ClangModule (getFullModuleName underlying) component' underlying s1
           in (result, setEntry underlying (entry\<lparr>getPointer := Some result\<rparr>) s2)))"

text \<open>\<^verbatim>\<open>Module::forAllVisibleModules\<close> with the empty callback, recorded in the trace.\<close>

definition forAllVisibleModules ::
  "env \<Rightarrow> ClangModule_ptr \<Rightarrow> string list \<Rightarrow> Implementation \<Rightarrow> Implementation" where
  "forAllVisibleModules E result path s =
     visit E result path (s\<lparr>Traversed := Traversed s @ [result]\<rparr>)"

text \<open>\<^verbatim>\<open>ASTContext::bumpGeneration\<close>\<close>

definition bumpGeneration :: "Implementation \<Rightarrow> Implementation" where
  "bumpGeneration s = s\<lparr>CurrentGeneration := CurrentGeneration s + 1\<rparr>"

text \<open>
  \<^verbatim>\<open>ClangImporter::loadModule\<close>. The identifiers of the path are interned by spelling,
  so the Clang path is the path. The result is null (\<open>None\<close>) when Clang fails.
\<close>

definition loadModule ::
  "env \<Rightarrow> string list \<Rightarrow> Implementation \<Rightarrow> ClangModule_ptr option \<times> Implementation" where
  "loadModule E path s =
     (let clangImportLoc = ImportCounter s;
          s0 = s\<lparr>ImportCounter := ImportCounter s + 1\<rparr>
      in case CI_loadModule E clangImportLoc path of
           None \<Rightarrow> (None, s0)
         | Some M \<Rightarrow>
             (let cachedResult = cacheEntry s0 M in
              case getPointer cachedResult of
                Some result \<Rightarrow>
                  (if \<not> getInt cachedResult
                   then (Some result, setEntry M (cachedResult\<lparr>getInt := True\<rparr>) s0)
                   else (Some result, s0))
              | None \<Rightarrow>
                  (let (component, s1) = new_Component s0;
                       (result, s2) = new_ClangModule (getFullModuleName M) component M s1;
                       cached1 = cachedResult\<lparr>getPointer := Some result\<rparr>;
                       s3 = setEntry M cached1 s2;
                       s4 = (if firstClangModule s3 = None
                             then s3\<lparr>firstClangModule := Some result\<rparr> else s3);
                       s5 = setEntry M (cached1\<lparr>getInt := True\<rparr>) s4;
                       s6 = forAllVisibleModules E result path s5;
                       s7 = s6\<lparr>Generation := Generation s6 + 1\<rparr>
                   in (Some result, bumpGeneration s7))))"

text \<open>
  The state of \<open>loadModule\<close> at the point where it calls \<^verbatim>\<open>forAllVisibleModules\<close>
  on a wrapper it has just created for the module \<open>M\<close>: the import counter is bumped,
  the component and the wrapper are allocated, the cache entry holds the wrapper with
  the flag set, and the first wrapper is remembered.
\<close>

definition createdForLoad :: "clang_Module \<Rightarrow> Implementation \<Rightarrow> Implementation" where
  "createdForLoad M s =
     (let s0 = s\<lparr>ImportCounter := ImportCounter s + 1\<rparr>;
          cachedResult = cacheEntry s0 M;
          (component, s1) = new_Component s0;
          (result, s2) = new_ClangModule (getFullModuleName M) component M s1;
          cached1 = cachedResult\<lparr>getPointer := Some result\<rparr>;
          s3 = setEntry M cached1 s2;
          s4 = (if firstClangModule s3 = None
                then s3\<lparr>firstClangModule := Some result\<rparr> else s3)
      in setEntry M (cached1\<lparr>getInt := True\<rparr>) s4)"

subsection \<open>The adapter module\<close>

text \<open>
  What stops a call: a failed \<^verbatim>\<open>assert\<close> (also the one inside \<^verbatim>\<open>isa<>\<close>, which
  refuses a null pointer), and a wrapper pointer that was never allocated, which the
  C++ code cannot be handed.
\<close>

datatype error = AssertionFailure | InvalidPointer

definition isTopLevel :: "ClangModule \<Rightarrow> bool" where
  "isTopLevel W = (\<not> isSubModule (clangModule W))"

definition setAdapter ::
  "ClangModule_ptr \<Rightarrow> Module_ref option \<Rightarrow> Implementation \<Rightarrow> Implementation" where
  "setAdapter self adapter s =
     s\<lparr>Modules := (Modules s)[self := (Modules s ! self)
          \<lparr>adapterModule := \<lparr>getPointer = adapter, getInt = True\<rparr>\<rparr>]\<rparr>"

text \<open>
  \<^verbatim>\<open>ClangModule::getAdapterModule\<close>. The call on the top-level wrapper is a call of
  the function itself, and nothing in the function bounds the chain of such calls, so
  a call that does not return has the value \<open>None\<close>.
\<close>

partial_function (option) getAdapterModule ::
  "env \<Rightarrow> ClangModule_ptr \<Rightarrow> Implementation
     \<Rightarrow> (error + Module_ref option \<times> Implementation) option" where
  "getAdapterModule E self s =
     (if length (Modules s) \<le> self then Some (Inl InvalidPointer)
      else if \<not> isTopLevel (Modules s ! self) then
        getAdapterModule E
          (fst (getWrapperModule (getTopLevelModule (clangModule (Modules s ! self)))
                  (Some (Comp (Modules s ! self))) s))
          (snd (getWrapperModule (getTopLevelModule (clangModule (Modules s ! self)))
                  (Some (Comp (Modules s ! self))) s))
      else if \<not> getInt (adapterModule (Modules s ! self)) then
        (let nm = Name (Modules s ! self);
             s1 = s\<lparr>getModule_calls := getModule_calls s @ [nm]\<rparr>
         in case Ctx_getModule E s nm of
              None \<Rightarrow> Some (Inl AssertionFailure)
            | Some adapter \<Rightarrow>
                if isa_ClangModule adapter
                then Some (Inr (None, setAdapter self None s1))
                else
                  (let sharedModuleRef = LoadedModules s1 nm in
                   if \<not> (sharedModuleRef = None \<or> sharedModuleRef = Some adapter
                          \<or> sharedModuleRef = Some (ClangModuleRef self))
                   then Some (Inl AssertionFailure)
                   else Some (Inr (Some adapter,
                          setAdapter self (Some adapter)
                            (s1\<lparr>LoadedModules := (LoadedModules s1)(nm \<mapsto> adapter)\<rparr>)))))
      else Some (Inr (getPointer (adapterModule (Modules s ! self)), s)))"

declare getAdapterModule.simps [code]

text \<open>
  What a call of \<open>getAdapterModule\<close> on the wrapper \<open>self\<close> relies on: the wrapper
  is allocated, and when it wraps a submodule, the cache entry of its top-level
  module, if there is one, points to an allocated wrapper of that module.
\<close>

definition topLevelCached :: "Implementation \<Rightarrow> ClangModule_ptr \<Rightarrow> bool" where
  "topLevelCached s self =
     (self < length (Modules s) \<and>
      (isTopLevel (Modules s ! self) \<or>
       (case getPointer (cacheEntry s (getTopLevelModule (clangModule (Modules s ! self)))) of
          None \<Rightarrow> True
        | Some t \<Rightarrow>
            t < length (Modules s)
            \<and> clangModule (Modules s ! t) = getTopLevelModule (clangModule (Modules s ! self)))))"

text \<open>
  The invariant of the cache that makes every allocated wrapper ready in that sense:
  a cached pointer is allocated and points to a wrapper of its key.
\<close>

definition cacheConsistent :: "Implementation \<Rightarrow> bool" where
  "cacheConsistent s =
     (\<forall>M t. getPointer (cacheEntry s M) = Some t \<longrightarrow>
        t < length (Modules s) \<and> clangModule (Modules s ! t) = M)"

subsection \<open>Importing names\<close>

text \<open>\<^verbatim>\<open>StringRef::endswith\<close>\<close>

definition endswith :: "string \<Rightarrow> string \<Rightarrow> bool" where
  "endswith str suffix =
     (length suffix \<le> length str \<and> drop (length str - length suffix) str = suffix)"

text \<open>\<^verbatim>\<open>isSwiftReservedName\<close>\<close>

definition isSwiftReservedName :: "string \<Rightarrow> bool" where
  "isSwiftReservedName name =
     (if name = ''true'' then True else if name = ''false'' then True else False)"

text \<open>
  \<^verbatim>\<open>ClangImporter::Implementation::importName(Identifier)\<close>; the null
  \<^verbatim>\<open>clang::DeclarationName\<close> is \<open>None\<close>, an identifier is its spelling.
\<close>

definition importName :: "env \<Rightarrow> string \<Rightarrow> string option" where
  "importName E name =
     (if isOperator E name then None
      else if isSwiftReservedName name then None
      else if getTokenID E name \<noteq> tok_identifier then None
      else Some name)"

subsection \<open>Name lookup\<close>

text \<open>
  The loop over the result of the first lookup: a declaration is pushed when it
  imports, is a \<^verbatim>\<open>ValueDecl\<close> and its context is not the standard library module.
\<close>

fun importLookupResult ::
  "env \<Rightarrow> clang_Decl list \<Rightarrow> Decl list \<times> bool \<Rightarrow> Decl list \<times> bool" where
  "importLookupResult E [] acc = acc"
| "importLookupResult E (decl # rest) (results, FoundType) =
     (case importDecl E (getUnderlyingDecl E decl) of
        None \<Rightarrow> importLookupResult E rest (results, FoundType)
      | Some swiftDecl \<Rightarrow>
          if isa_ValueDecl swiftDecl
          then if getDeclContext swiftDecl \<noteq> getSwiftModule E
               then importLookupResult E rest
                      (results @ [swiftDecl], FoundType \<or> isa_TypeDecl swiftDecl)
               else importLookupResult E rest (results, FoundType)
          else importLookupResult E rest (results, FoundType))"

text \<open>The loop over the result of the tag lookup.\<close>

fun importTagResult :: "env \<Rightarrow> clang_Decl list \<Rightarrow> Decl list \<Rightarrow> Decl list" where
  "importTagResult E [] results = results"
| "importTagResult E (decl # rest) results =
     (case importDecl E (getUnderlyingDecl E decl) of
        None \<Rightarrow> importTagResult E rest results
      | Some swiftDecl \<Rightarrow>
          if isa_ValueDecl swiftDecl
          then importTagResult E rest (results @ [swiftDecl])
          else importTagResult E rest results)"

text \<open>The macro probe.\<close>

definition importMacroByName :: "env \<Rightarrow> string \<Rightarrow> string \<Rightarrow> Decl list \<Rightarrow> Decl list" where
  "importMacroByName E name clangName results =
     (if hasMacroDefinition E clangName
      then (case getMacroInfo E clangName of
              None \<Rightarrow> results
            | Some clangMacro \<Rightarrow>
                (case importMacro E name clangMacro of
                   None \<Rightarrow> results
                 | Some valueDecl \<Rightarrow> results @ [valueDecl]))
      else results)"

text \<open>
  \<^verbatim>\<open>ClangImporter::lookupValue\<close>. The vector \<^verbatim>\<open>results\<close> is handed in and comes
  back extended. The second component of the value is a trace: the calls of
  \<^verbatim>\<open>Sema::LookupName\<close> in order, each with its name and its kind.
\<close>

definition lookupValue ::
  "env \<Rightarrow> ClangModule_ptr option \<Rightarrow> string list \<Rightarrow> string \<Rightarrow> NLKind \<Rightarrow> Decl list
     \<Rightarrow> error + Decl list \<times> (string \<times> LookupNameKind) list" where
  "lookupValue E M accessPath name lookupKind results =
     (if \<not> length accessPath \<le> 1 then Inl AssertionFailure
      else if length accessPath = 1 \<and> hd accessPath \<noteq> name then Inr (results, [])
      else
        (let (name1, lookupNameKind) =
               (if endswith name ''Proto''
                then (take (length name - 5) name, LookupObjCProtocolName)
                else (name, LookupOrdinaryName))
         in case importName E name1 of
              None \<Rightarrow> Inr (results, [])
            | Some clangName \<Rightarrow>
                (let results1 = importMacroByName E name1 clangName results;
                     (results2, FoundType) =
                       (case LookupName E clangName lookupNameKind of
                          None \<Rightarrow> (results1, False)
                        | Some decls \<Rightarrow> importLookupResult E decls (results1, False));
                     calls = [(clangName, lookupNameKind)]
                 in if lookupNameKind = LookupOrdinaryName \<and> \<not> FoundType
                    then (case LookupName E clangName LookupTagName of
                            None \<Rightarrow> Inr (results2, calls @ [(clangName, LookupTagName)])
                          | Some decls \<Rightarrow>
                              Inr (importTagResult E decls results2,
                                   calls @ [(clangName, LookupTagName)]))
                    else Inr (results2, calls))))"

text \<open>
  The acceptance test in words, to compare the loops with: a Clang declaration is
  accepted when it imports, the import is a value declaration, and the import does not
  live in the standard library module; it is type-like when its import is a
  \<^verbatim>\<open>TypeDecl\<close>.
\<close>

definition accepted :: "env \<Rightarrow> clang_Decl \<Rightarrow> bool" where
  "accepted E decl =
     (case importDecl E (getUnderlyingDecl E decl) of
        None \<Rightarrow> False
      | Some D \<Rightarrow> isa_ValueDecl D \<and> getDeclContext D \<noteq> getSwiftModule E)"

definition typeLike :: "env \<Rightarrow> clang_Decl \<Rightarrow> bool" where
  "typeLike E decl =
     (case importDecl E (getUnderlyingDecl E decl) of
        None \<Rightarrow> False
      | Some D \<Rightarrow> isa_TypeDecl D)"

definition foundDecls :: "env \<Rightarrow> string \<Rightarrow> LookupNameKind \<Rightarrow> clang_Decl list" where
  "foundDecls E clangName kind =
     (case LookupName E clangName kind of None \<Rightarrow> [] | Some decls \<Rightarrow> decls)"



subsection \<open>A concrete importer\<close>

text \<open>
  A state with nothing loaded yet, and a small front end: the framework \<open>Kit\<close> with
  its submodule \<open>Kit.Core\<close>, a traversal that wraps the module \<open>Dep\<close>, a class and a
  protocol \<open>Widget\<close>, a typedef and a struct tag \<open>Point\<close>, a variable \<open>origin\<close>,
  a declaration spelled \<open>true\<close>, and a struct tag \<open>Shim\<close> that the importer maps
  to a declaration of the standard library.
\<close>

definition emptyImpl :: Implementation where
  "emptyImpl =
     \<lparr>ModuleWrappers = Map.empty, Generation = 0, ImportCounter = 0,
      firstClangModule = None, Modules = [], Components = 0, CurrentGeneration = 0,
      LoadedModules = Map.empty, Traversed = [], getModule_calls = []\<rparr>"

definition Kit :: clang_Module where
  "Kit = ClangMod ''Kit'' None"

definition KitCore :: clang_Module where
  "KitCore = ClangMod ''Core'' (Some Kit)"

definition Dep :: clang_Module where
  "Dep = ClangMod ''Dep'' None"

definition demoDecl :: "clang_Decl \<Rightarrow> Decl option" where
  "demoDecl d =
     (if d = 1 then Some \<lparr>declId = 1, declClass = Class_TypeDecl, getDeclContext = 5\<rparr>
      else if d = 2 then Some \<lparr>declId = 2, declClass = Class_TypeDecl, getDeclContext = 5\<rparr>
      else if d = 3 then Some \<lparr>declId = 3, declClass = Class_TypeDecl, getDeclContext = 5\<rparr>
      else if d = 4 then Some \<lparr>declId = 4, declClass = Class_TypeDecl, getDeclContext = 5\<rparr>
      else if d = 6 then Some \<lparr>declId = 6, declClass = Class_TypeDecl, getDeclContext = 0\<rparr>
      else if d = 7 then Some \<lparr>declId = 7, declClass = Class_ValueDecl, getDeclContext = 5\<rparr>
      else None)"

definition demoLookup :: "string \<Rightarrow> LookupNameKind \<Rightarrow> clang_Decl list option" where
  "demoLookup n k =
     (if n = ''Widget'' \<and> k = LookupOrdinaryName then Some [1]
      else if n = ''Widget'' \<and> k = LookupObjCProtocolName then Some [2]
      else if n = ''Point'' \<and> k = LookupOrdinaryName then Some [3]
      else if n = ''Point'' \<and> k = LookupTagName then Some [4]
      else if n = ''Shim'' \<and> k = LookupTagName then Some [6]
      else if n = ''origin'' \<and> k = LookupOrdinaryName then Some [7]
      else if n = ''true'' \<and> k = LookupOrdinaryName then Some [7]
      else None)"

definition demoEnv :: env where
  "demoEnv =
     \<lparr>CI_loadModule = (\<lambda>loc path.
          if path = [''Kit''] then Some Kit
          else if path = [''Kit'', ''Core''] then Some KitCore
          else None),
      visit = (\<lambda>w path s. snd (getWrapperModule Dep None s)),
      isOperator = (\<lambda>n. n = ''+''),
      getTokenID = (\<lambda>n. if n = ''while'' then tok_keyword else tok_identifier),
      hasMacroDefinition = (\<lambda>n. False),
      getMacroInfo = (\<lambda>n. None),
      importMacro = (\<lambda>n m. None),
      LookupName = demoLookup,
      getUnderlyingDecl = (\<lambda>d. d),
      importDecl = demoDecl,
      getSwiftModule = 0,
      Ctx_getModule = (\<lambda>s n.
          if n = ''Kit'' then Some (OtherModuleRef 1)
          else if n = ''Dep'' then Some (ClangModuleRef 0)
          else None)\<rparr>"

text \<open>
  A front end whose traversal of \<open>Kit\<close> loads the module \<open>Dep\<close> through
  \<open>loadModule\<close> itself; the inner load traverses nothing.
\<close>

definition leafEnv :: env where
  "leafEnv =
     demoEnv\<lparr>CI_loadModule := (\<lambda>loc path. if path = [''Dep''] then Some Dep else None),
             visit := (\<lambda>w path s. s)\<rparr>"

definition nestedEnv :: env where
  "nestedEnv = demoEnv\<lparr>visit := (\<lambda>w path s. snd (loadModule leafEnv [''Dep''] s))\<rparr>"

text \<open>
  What the traversal may be trusted with: a wrapper that exists stays where it is and
  keeps the names its constructor gave it (no code writes them again).
\<close>

definition keepsNames :: "env \<Rightarrow> bool" where
  "keepsNames E =
     (\<forall>w p t i. i < length (Modules t) \<longrightarrow>
        i < length (Modules (visit E w p t))
        \<and> Name (Modules (visit E w p t) ! i) = Name (Modules t ! i)
        \<and> DebugModuleName (Modules (visit E w p t) ! i) = DebugModuleName (Modules t ! i))"

section \<open>Properties\<close>

lemma getWrapperModule_hit:
  "getPointer (cacheEntry s M) = Some w \<Longrightarrow> getWrapperModule M c s = (w, s)"
  by (simp add: getWrapperModule_def)

lemma getWrapperModule_miss_entry:
  assumes "getPointer (cacheEntry s M) = None"
  shows "getPointer (cacheEntry (snd (getWrapperModule M c s)) M)
           = Some (fst (getWrapperModule M c s))"
  using assms
  by (simp add: getWrapperModule_def new_ClangModule_def new_Component_def setEntry_def
      cacheEntry_def split: option.splits prod.splits)

lemma getWrapperModule_entry:
  "getPointer (cacheEntry (snd (getWrapperModule M c s)) M) = Some (fst (getWrapperModule M c s))"
proof (cases "getPointer (cacheEntry s M)")
  case None
  then show ?thesis by (rule getWrapperModule_miss_entry)
next
  case (Some w)
  then show ?thesis by (simp add: getWrapperModule_hit)
qed

subsection \<open>The wrapper cache keeps one wrapper per Clang module\<close>

lemma cacheEntry_ImportCounter [simp]:
  "cacheEntry (s\<lparr>ImportCounter := n\<rparr>) M = cacheEntry s M"
  by (simp add: cacheEntry_def)

lemma getWrapperModule_Generation:
  "Generation (snd (getWrapperModule M c s)) = Generation s"
  by (simp add: getWrapperModule_def new_ClangModule_def new_Component_def setEntry_def Let_def
      split: option.splits prod.splits)


lemma loadModule_hit:
  assumes "CI_loadModule E (ImportCounter s) path = Some M"
    and "getPointer (cacheEntry s M) = Some w"
  shows "fst (loadModule E path s) = Some w"
    and "Modules (snd (loadModule E path s)) = Modules s"
    and "Generation (snd (loadModule E path s)) = Generation s"
  using assms by (simp_all add: loadModule_def setEntry_def Let_def)

lemma Kit_wrapped:
  "getWrapperModule Kit None emptyImpl =
     (0, emptyImpl\<lparr>ModuleWrappers := [Kit \<mapsto> \<lparr>getPointer = Some 0, getInt = False\<rparr>],
                   Modules := [ClangModule_ctor ''Kit'' 0 Kit], Components := 1\<rparr>)"
  by (simp add: getWrapperModule_def cacheEntry_def emptyImpl_def nullPair_def new_Component_def
      new_ClangModule_def setEntry_def getFullModuleName_def Kit_def)



subsection \<open>The generation counts the wrappers that loadModule creates\<close>

lemma loadModule_miss_Generation:
  assumes "CI_loadModule E (ImportCounter s) path = Some M"
    and "getPointer (cacheEntry s M) = None"
    and "\<forall>w p t. Generation (visit E w p t) = Generation t"
  shows "Generation (snd (loadModule E path s)) = Generation s + 1"
  using assms
  by (simp add: loadModule_def Let_def new_Component_def new_ClangModule_def setEntry_def
      forAllVisibleModules_def bumpGeneration_def split: prod.splits)

lemma loadModule_failure_state:
  assumes "CI_loadModule E (ImportCounter s) path = None"
  shows "loadModule E path s = (None, s\<lparr>ImportCounter := ImportCounter s + 1\<rparr>)"
  using assms by (simp add: loadModule_def)

lemma demoEnv_visit_Generation:
  "\<forall>w p t. Generation (visit demoEnv w p t) = Generation t"
  by (simp add: demoEnv_def getWrapperModule_Generation)

lemma Kit_loaded:
  "loadModule demoEnv [''Kit''] emptyImpl =
     (Some 0, emptyImpl\<lparr>ModuleWrappers :=
                 [Kit \<mapsto> \<lparr>getPointer = Some 0, getInt = True\<rparr>,
                  Dep \<mapsto> \<lparr>getPointer = Some 1, getInt = False\<rparr>],
               Generation := 1, ImportCounter := 1, firstClangModule := Some 0,
               Modules := [ClangModule_ctor ''Kit'' 0 Kit, ClangModule_ctor ''Dep'' 1 Dep],
               Components := 2, CurrentGeneration := 1, Traversed := [0]\<rparr>)"
  by (simp add: loadModule_def demoEnv_def getWrapperModule_def cacheEntry_def emptyImpl_def
      nullPair_def new_Component_def new_ClangModule_def setEntry_def getFullModuleName_def
      Kit_def Dep_def forAllVisibleModules_def bumpGeneration_def)

lemma createdForLoad_Generation: "Generation (createdForLoad M s) = Generation s"
  by (simp add: createdForLoad_def Let_def new_Component_def new_ClangModule_def setEntry_def
      split: prod.splits)

lemma loadModule_miss_unfold:
  assumes "CI_loadModule E (ImportCounter s) path = Some M"
    and "getPointer (cacheEntry s M) = None"
  shows "loadModule E path s =
     (Some (length (Modules s)),
      bumpGeneration
        ((forAllVisibleModules E (length (Modules s)) path (createdForLoad M s))
           \<lparr>Generation :=
              Generation (forAllVisibleModules E (length (Modules s)) path (createdForLoad M s))
                + 1\<rparr>))"
  using assms
  by (simp add: loadModule_def createdForLoad_def Let_def new_Component_def new_ClangModule_def)

text \<open>
  Claim C2 (generation exactly once), as the code has it. \<open>getWrapperModule\<close> never
  changes \<open>Generation\<close>, whether it finds a wrapper or creates one. \<open>loadModule\<close>
  leaves \<open>Generation\<close> as it was when Clang fails or the module has a wrapper
  already. When \<open>loadModule\<close> creates a wrapper, \<open>Generation\<close> is still what it was
  when the traversal of the new wrapper starts, and at the end it is exactly one more
  than the traversal left it: the creation adds 1 of its own, on top of what the loads
  nested in the traversal added. Nothing is assumed of the traversal. The counter is
  \<^verbatim>\<open>unsigned\<close>, so the sum is modulo \<open>2 ^ 32\<close>.
\<close>

theorem Generation_bumped_by_loadModule_creation:
  "Generation (snd (getWrapperModule M c s)) = Generation s
   \<and> Generation (createdForLoad M s) = Generation s
   \<and> Generation (snd (loadModule E path s)) =
        (case CI_loadModule E (ImportCounter s) path of
           None \<Rightarrow> Generation s
         | Some M' \<Rightarrow>
             (case getPointer (cacheEntry s M') of
                None \<Rightarrow>
                  Generation (forAllVisibleModules E (length (Modules s)) path
                                (createdForLoad M' s)) + 1
              | Some w \<Rightarrow> Generation s))"
proof (intro conjI)
  show "Generation (snd (getWrapperModule M c s)) = Generation s"
    by (rule getWrapperModule_Generation)
next
  show "Generation (createdForLoad M s) = Generation s"
    by (rule createdForLoad_Generation)
next
  show "Generation (snd (loadModule E path s)) =
        (case CI_loadModule E (ImportCounter s) path of
           None \<Rightarrow> Generation s
         | Some M' \<Rightarrow>
             (case getPointer (cacheEntry s M') of
                None \<Rightarrow>
                  Generation (forAllVisibleModules E (length (Modules s)) path
                                (createdForLoad M' s)) + 1
              | Some w \<Rightarrow> Generation s))"
  proof (cases "CI_loadModule E (ImportCounter s) path")
    case None
    then show ?thesis by (simp add: loadModule_failure_state)
  next
    case (Some M')
    show ?thesis
    proof (cases "getPointer (cacheEntry s M')")
      case None
      with Some show ?thesis
        by (simp add: loadModule_miss_unfold bumpGeneration_def)
    next
      case (Some w)
      with \<open>CI_loadModule E (ImportCounter s) path = Some M'\<close> show ?thesis
        by (simp add: loadModule_hit)
    qed
  qed
qed

lemma Kit_created:
  "createdForLoad Kit emptyImpl =
     emptyImpl\<lparr>ModuleWrappers := [Kit \<mapsto> \<lparr>getPointer = Some 0, getInt = True\<rparr>],
               ImportCounter := 1, firstClangModule := Some 0,
               Modules := [ClangModule_ctor ''Kit'' 0 Kit], Components := 1\<rparr>"
  by (simp add: createdForLoad_def cacheEntry_def emptyImpl_def nullPair_def new_Component_def
      new_ClangModule_def setEntry_def getFullModuleName_def Kit_def)

theorem Generation_bumped_by_loadModule_creation_witness:
  "Generation (snd (loadModule nestedEnv [''Kit''] emptyImpl))
     = Generation (forAllVisibleModules nestedEnv 0 [''Kit''] (createdForLoad Kit emptyImpl)) + 1
   \<and> Generation (forAllVisibleModules nestedEnv 0 [''Kit''] (createdForLoad Kit emptyImpl))
       = Generation emptyImpl + 1
   \<and> Generation (snd (loadModule nestedEnv [''Kit''] emptyImpl)) = Generation emptyImpl + 2
   \<and> Generation (snd (loadModule demoEnv [''Kit''] emptyImpl)) = Generation emptyImpl + 1
   \<and> Generation (snd (getWrapperModule Dep None emptyImpl)) = Generation emptyImpl"
proof -
  have l: "\<And>n. CI_loadModule nestedEnv n [''Kit''] = Some Kit"
    "\<And>n. CI_loadModule demoEnv n [''Kit''] = Some Kit"
    "\<And>n. CI_loadModule leafEnv n [''Dep''] = Some Dep"
    by (simp_all add: nestedEnv_def leafEnv_def demoEnv_def)
  have m: "getPointer (cacheEntry emptyImpl Kit) = None" "length (Modules emptyImpl) = 0"
    by (simp_all add: cacheEntry_def emptyImpl_def nullPair_def)
  have outer: "Generation (snd (loadModule nestedEnv [''Kit''] emptyImpl))
     = Generation (forAllVisibleModules nestedEnv 0 [''Kit''] (createdForLoad Kit emptyImpl)) + 1"
    using Generation_bumped_by_loadModule_creation [of Dep None emptyImpl nestedEnv "[''Kit'']"]
    by (simp add: l m)
  have f: "forAllVisibleModules nestedEnv 0 [''Kit''] (createdForLoad Kit emptyImpl)
             = snd (loadModule leafEnv [''Dep'']
                 ((createdForLoad Kit emptyImpl)\<lparr>Traversed := [0]\<rparr>))"
    unfolding Kit_created by (simp add: forAllVisibleModules_def nestedEnv_def emptyImpl_def)
  have d: "getPointer (cacheEntry ((createdForLoad Kit emptyImpl)\<lparr>Traversed := [0]\<rparr>) Dep) = None"
    unfolding Kit_created by (simp add: cacheEntry_def emptyImpl_def nullPair_def Kit_def Dep_def)
  have v: "\<And>w p t. forAllVisibleModules leafEnv w p t = t\<lparr>Traversed := Traversed t @ [w]\<rparr>"
    by (simp add: forAllVisibleModules_def leafEnv_def)
  have inner: "Generation (snd (loadModule leafEnv [''Dep'']
                 ((createdForLoad Kit emptyImpl)\<lparr>Traversed := [0]\<rparr>))) = Generation emptyImpl + 1"
    using Generation_bumped_by_loadModule_creation [of Dep None
        "(createdForLoad Kit emptyImpl)\<lparr>Traversed := [0]\<rparr>" leafEnv "[''Dep'']"]
    by (simp add: l d v createdForLoad_Generation)
  have demo: "Generation (snd (loadModule demoEnv [''Kit''] emptyImpl)) = Generation emptyImpl + 1"
    using Generation_bumped_by_loadModule_creation [of Dep None emptyImpl demoEnv "[''Kit'']"]
    by (simp add: l m forAllVisibleModules_def demoEnv_visit_Generation createdForLoad_Generation)
  have g: "Generation (snd (getWrapperModule Dep None emptyImpl)) = Generation emptyImpl"
    using Generation_bumped_by_loadModule_creation [of Dep None emptyImpl demoEnv "[]"]
    by simp
  from outer f inner demo g show ?thesis by simp
qed

text \<open>
  Against C2 as stated: in the empty state \<open>getWrapperModule\<close> creates the wrapper of
  \<open>Kit\<close>, and \<open>Generation\<close> is not one more than before.
\<close>

theorem getWrapperModule_creation_keeps_Generation:
  "getPointer (cacheEntry emptyImpl Kit) = None
   \<and> Modules emptyImpl = []
   \<and> Modules (snd (getWrapperModule Kit None emptyImpl)) = [ClangModule_ctor ''Kit'' 0 Kit]
   \<and> Generation (snd (getWrapperModule Kit None emptyImpl)) \<noteq> Generation emptyImpl + 1"
  by (simp add: Kit_wrapped) (simp add: emptyImpl_def cacheEntry_def nullPair_def)

subsection \<open>A failed load\<close>

text \<open>
  Claim C3 (load-failure atomicity). When Clang cannot load the module of the path,
  \<open>loadModule\<close> returns null, and the wrapper cache, the wrappers, the components, the
  first wrapper, both generations and the traversals are what they were: the only
  field written is the counter of import locations.
\<close>

theorem loadModule_failure_leaves_cache:
  assumes "CI_loadModule E (ImportCounter s) path = None"
  shows "fst (loadModule E path s) = None
    \<and> ModuleWrappers (snd (loadModule E path s)) = ModuleWrappers s
    \<and> Modules (snd (loadModule E path s)) = Modules s
    \<and> Components (snd (loadModule E path s)) = Components s
    \<and> firstClangModule (snd (loadModule E path s)) = firstClangModule s
    \<and> Generation (snd (loadModule E path s)) = Generation s
    \<and> CurrentGeneration (snd (loadModule E path s)) = CurrentGeneration s
    \<and> Traversed (snd (loadModule E path s)) = Traversed s
    \<and> snd (loadModule E path s) = s\<lparr>ImportCounter := ImportCounter s + 1\<rparr>"
  using assms by (simp add: loadModule_failure_state)

theorem loadModule_failure_leaves_cache_witness:
  "CI_loadModule demoEnv (ImportCounter emptyImpl) [''Nope''] = None
   \<and> loadModule demoEnv [''Nope''] emptyImpl = (None, emptyImpl\<lparr>ImportCounter := 1\<rparr>)
   \<and> ModuleWrappers (snd (loadModule demoEnv [''Nope''] emptyImpl)) = Map.empty
   \<and> Modules (snd (loadModule demoEnv [''Nope''] emptyImpl)) = []
   \<and> Generation (snd (loadModule demoEnv [''Nope''] emptyImpl)) = Generation emptyImpl"
proof -
  have f: "CI_loadModule demoEnv (ImportCounter emptyImpl) [''Nope''] = None"
    by (simp add: demoEnv_def)
  from loadModule_failure_leaves_cache [OF f] f show ?thesis
    by (simp add: emptyImpl_def prod_eq_iff)
qed

subsection \<open>The names of a wrapper\<close>

lemma joinDotted_snoc:
  "joinDotted (xs @ [n]) = (if xs = [] then n else joinDotted xs @ ''.'' @ n)"
  by (induction xs rule: joinDotted.induct) auto

lemma moduleNames_nonempty: "moduleNames M \<noteq> []"
  by (induction M rule: moduleNames.induct) auto

lemma last_moduleNames: "last (moduleNames M) = Module_Name M"
  by (induction M rule: moduleNames.induct) auto

lemma getFullModuleName_sub:
  "Module_Parent M = Some P \<Longrightarrow>
     getFullModuleName M = getFullModuleName P @ ''.'' @ Module_Name M"
  by (cases M) (simp add: getFullModuleName_def joinDotted_snoc moduleNames_nonempty)

lemma getFullModuleName_top:
  "Module_Parent M = None \<Longrightarrow> getFullModuleName M = Module_Name M"
  by (cases M) (simp add: getFullModuleName_def)

lemma getWrapperModule_miss_new:
  assumes "getPointer (cacheEntry s M) = None"
  shows "fst (getWrapperModule M c s) = length (Modules s)"
    and "Modules (snd (getWrapperModule M c s)) =
           Modules s @ [ClangModule_ctor (getFullModuleName M)
                          (case c of None \<Rightarrow> Components s | Some k \<Rightarrow> k) M]"
  using assms
  by (simp_all add: getWrapperModule_def Let_def new_Component_def new_ClangModule_def
      setEntry_def split: option.splits)

lemma loadModule_miss_new:
  assumes "CI_loadModule E (ImportCounter s) path = Some M"
    and "getPointer (cacheEntry s M) = None"
    and "keepsNames E"
  shows "fst (loadModule E path s) = Some (length (Modules s))"
    and "length (Modules s) < length (Modules (snd (loadModule E path s)))"
    and "Name (Modules (snd (loadModule E path s)) ! length (Modules s)) = Module_Name M"
    and "DebugModuleName (Modules (snd (loadModule E path s)) ! length (Modules s))
           = getFullModuleName M"
proof -
  define t where "t = (s\<lparr>ImportCounter := ImportCounter s + 1, Components := Components s + 1,
      Modules := Modules s @ [ClangModule_ctor (getFullModuleName M) (Components s) M]\<rparr>)"
  define s5 where "s5 = setEntry M ((cacheEntry s M)\<lparr>getPointer := Some (length (Modules s)),
       getInt := True\<rparr>)
     ((if firstClangModule t = None
       then (setEntry M ((cacheEntry s M)\<lparr>getPointer := Some (length (Modules s))\<rparr>) t)
              \<lparr>firstClangModule := Some (length (Modules s))\<rparr>
       else setEntry M ((cacheEntry s M)\<lparr>getPointer := Some (length (Modules s))\<rparr>) t))
     \<lparr>Traversed := Traversed s @ [length (Modules s)]\<rparr>"
  have m5: "Modules s5 = Modules s @ [ClangModule_ctor (getFullModuleName M) (Components s) M]"
    by (simp add: s5_def t_def setEntry_def)
  have r: "loadModule E path s =
      (Some (length (Modules s)),
       bumpGeneration ((visit E (length (Modules s)) path s5)
          \<lparr>Generation := Generation (visit E (length (Modules s)) path s5) + 1\<rparr>))"
    using assms(1,2)
    by (simp add: loadModule_def Let_def new_Component_def new_ClangModule_def
        forAllVisibleModules_def s5_def t_def setEntry_def)
  have i: "length (Modules s) < length (Modules s5)"
    by (simp add: m5)
  from assms(3) i have k:
    "length (Modules s) < length (Modules (visit E (length (Modules s)) path s5))"
    "Name (Modules (visit E (length (Modules s)) path s5) ! length (Modules s))
       = Name (Modules s5 ! length (Modules s))"
    "DebugModuleName (Modules (visit E (length (Modules s)) path s5) ! length (Modules s))
       = DebugModuleName (Modules s5 ! length (Modules s))"
    unfolding keepsNames_def by blast+
  show "fst (loadModule E path s) = Some (length (Modules s))"
    by (simp add: r)
  show "length (Modules s) < length (Modules (snd (loadModule E path s)))"
    using k(1) by (simp add: r bumpGeneration_def)
  show "Name (Modules (snd (loadModule E path s)) ! length (Modules s)) = Module_Name M"
    using k(2) by (simp add: r bumpGeneration_def m5 ClangModule_ctor_def)
  show "DebugModuleName (Modules (snd (loadModule E path s)) ! length (Modules s))
           = getFullModuleName M"
    using k(3) by (simp add: r bumpGeneration_def m5 ClangModule_ctor_def)
qed

lemma getWrapperModule_Modules:
  "Modules (snd (getWrapperModule M c s)) = Modules s
   \<or> (\<exists>W. Modules (snd (getWrapperModule M c s)) = Modules s @ [W])"
  by (simp add: getWrapperModule_def Let_def new_Component_def new_ClangModule_def
      setEntry_def split: option.splits)

lemma demoEnv_keepsNames: "keepsNames demoEnv"
proof -
  have "\<And>t i. i < length (Modules t) \<Longrightarrow>
        i < length (Modules (snd (getWrapperModule Dep None t)))
        \<and> Modules (snd (getWrapperModule Dep None t)) ! i = Modules t ! i"
    using getWrapperModule_Modules [of Dep None] by (metis length_append_singleton less_Suc_eq nth_append)
  then show ?thesis by (simp add: keepsNames_def demoEnv_def)
qed

text \<open>
  Claim C10 (wrapper naming). A wrapper that \<open>getWrapperModule\<close> or \<open>loadModule\<close>
  creates for the Clang module \<open>M\<close> is the new last object of the heap. Its \<open>Name\<close>,
  the identifier the host sees, is the module's own name, which is the last segment of
  its path; its \<open>DebugModuleName\<close> is the full name of the module, which for a
  submodule is the full name of the parent, a dot, and the module's own name. For
  \<open>loadModule\<close> the traversal that follows the creation is assumed to keep the names
  of the wrappers that exist.
\<close>

theorem wrapper_named_by_last_component:
  assumes "getPointer (cacheEntry s M) = None"
  shows "fst (getWrapperModule M c s) = length (Modules s)
    \<and> Name (Modules (snd (getWrapperModule M c s)) ! length (Modules s)) = Module_Name M
    \<and> DebugModuleName (Modules (snd (getWrapperModule M c s)) ! length (Modules s))
        = getFullModuleName M
    \<and> (CI_loadModule E (ImportCounter s) path = Some M \<and> keepsNames E \<longrightarrow>
         fst (loadModule E path s) = Some (length (Modules s))
         \<and> Name (Modules (snd (loadModule E path s)) ! length (Modules s)) = Module_Name M
         \<and> DebugModuleName (Modules (snd (loadModule E path s)) ! length (Modules s))
             = getFullModuleName M)
    \<and> Module_Name M = last (moduleNames M)
    \<and> getFullModuleName M =
        (case Module_Parent M of
           None \<Rightarrow> Module_Name M
         | Some P \<Rightarrow> getFullModuleName P @ ''.'' @ Module_Name M)"
  using assms
  by (auto simp: getWrapperModule_miss_new loadModule_miss_new last_moduleNames ClangModule_ctor_def
      getFullModuleName_sub getFullModuleName_top split: option.splits)

theorem wrapper_named_by_last_component_witness:
  "getPointer (cacheEntry emptyImpl KitCore) = None
   \<and> CI_loadModule demoEnv (ImportCounter emptyImpl) [''Kit'', ''Core''] = Some KitCore
   \<and> keepsNames demoEnv
   \<and> Name (Modules (snd (getWrapperModule KitCore None emptyImpl)) ! 0) = ''Core''
   \<and> DebugModuleName (Modules (snd (getWrapperModule KitCore None emptyImpl)) ! 0) = ''Kit.Core''
   \<and> fst (loadModule demoEnv [''Kit'', ''Core''] emptyImpl) = Some 0
   \<and> Name (Modules (snd (loadModule demoEnv [''Kit'', ''Core''] emptyImpl)) ! 0) = ''Core''
   \<and> DebugModuleName (Modules (snd (loadModule demoEnv [''Kit'', ''Core''] emptyImpl)) ! 0)
       = ''Kit.Core''"
proof -
  have m: "getPointer (cacheEntry emptyImpl KitCore) = None"
    by (simp add: cacheEntry_def emptyImpl_def nullPair_def)
  have l: "CI_loadModule demoEnv (ImportCounter emptyImpl) [''Kit'', ''Core''] = Some KitCore"
    by (simp add: demoEnv_def)
  have n: "Module_Name KitCore = ''Core''" "getFullModuleName KitCore = ''Kit.Core''"
    "length (Modules emptyImpl) = 0"
    by (simp_all add: KitCore_def Kit_def getFullModuleName_def emptyImpl_def)
  from wrapper_named_by_last_component [OF m, of None demoEnv "[''Kit'', ''Core'']"]
    l demoEnv_keepsNames
  have "Name (Modules (snd (getWrapperModule KitCore None emptyImpl)) ! length (Modules emptyImpl))
          = Module_Name KitCore
    \<and> DebugModuleName (Modules (snd (getWrapperModule KitCore None emptyImpl))
          ! length (Modules emptyImpl)) = getFullModuleName KitCore
    \<and> fst (loadModule demoEnv [''Kit'', ''Core''] emptyImpl) = Some (length (Modules emptyImpl))
    \<and> Name (Modules (snd (loadModule demoEnv [''Kit'', ''Core''] emptyImpl))
          ! length (Modules emptyImpl)) = Module_Name KitCore
    \<and> DebugModuleName (Modules (snd (loadModule demoEnv [''Kit'', ''Core''] emptyImpl))
          ! length (Modules emptyImpl)) = getFullModuleName KitCore"
    by blast
  with m l demoEnv_keepsNames show ?thesis by (simp add: n)
qed

subsection \<open>Names and lookup\<close>

lemma importLookupResult_FoundType:
  "snd (importLookupResult E decls (results, FoundType))
     = (FoundType \<or> (\<exists>d \<in> set decls. accepted E d \<and> typeLike E d))"
  by (induction decls arbitrary: results FoundType)
     (auto simp: accepted_def typeLike_def isa_TypeDecl_def isa_ValueDecl_def split: option.splits)

lemma importLookupResult_results:
  "fst (importLookupResult E decls (results, FoundType))
     = results @ map (\<lambda>d. the (importDecl E (getUnderlyingDecl E d))) (filter (accepted E) decls)"
  by (induction decls arbitrary: results FoundType)
     (auto simp: accepted_def split: option.splits)



lemma lookupValue_untranslatable:
  assumes "length accessPath \<le> 1" and "\<not> endswith name ''Proto''"
    and "importName E name = None"
  shows "lookupValue E M accessPath name k results = Inr (results, [])"
  using assms by (simp add: lookupValue_def)

text \<open>
  Claim C9 (reserved-name exclusion). \<open>importName\<close> returns the null name for every
  host name that is an operator, that is spelled \<open>true\<close> or \<open>false\<close>, or whose Clang
  identifier has a token kind other than identifier. No lookup table is an argument of
  \<open>importName\<close>, so the declarations Clang has play no part; and \<open>lookupValue\<close> for
  such a name, when the name has no \<open>Proto\<close> suffix, hands back \<open>results\<close> as it got
  it without asking Clang anything.
\<close>

theorem importName_reserved_absent:
  assumes "isOperator E name \<or> name = ''true'' \<or> name = ''false''
             \<or> getTokenID E name \<noteq> tok_identifier"
  shows "importName E name = None
    \<and> (length accessPath \<le> 1 \<and> \<not> endswith name ''Proto'' \<longrightarrow>
          lookupValue E M accessPath name k results = Inr (results, []))"
proof -
  from assms have n: "importName E name = None"
    by (auto simp: importName_def isSwiftReservedName_def)
  then show ?thesis by (simp add: lookupValue_untranslatable)
qed

theorem importName_reserved_absent_witness:
  "(isOperator demoEnv ''true'' \<or> ''true'' = ''true'' \<or> ''true'' = ''false''
      \<or> getTokenID demoEnv ''true'' \<noteq> tok_identifier)
   \<and> LookupName demoEnv ''true'' LookupOrdinaryName = Some [7]
   \<and> importName demoEnv ''true'' = None
   \<and> length ([] :: string list) \<le> 1 \<and> \<not> endswith ''true'' ''Proto''
   \<and> lookupValue demoEnv None [] ''true'' UnqualifiedLookup [] = Inr ([], [])"
proof -
  have a: "isOperator demoEnv ''true'' \<or> ''true'' = ''true'' \<or> ''true'' = ''false''
      \<or> getTokenID demoEnv ''true'' \<noteq> tok_identifier"
    by simp
  have b: "LookupName demoEnv ''true'' LookupOrdinaryName = Some [7]"
    by (simp add: demoEnv_def demoLookup_def)
  have c: "\<not> endswith ''true'' ''Proto''"
    by (simp add: endswith_def)
  from importName_reserved_absent [OF a, of "[]" None UnqualifiedLookup "[]"] a b c
  show ?thesis by simp
qed

lemma importName_Some: "importName E name = Some cn \<Longrightarrow> cn = name"
  by (simp add: importName_def split: if_splits)










lemma Widget_lookup:
  "lookupValue demoEnv None [] ''Widget'' UnqualifiedLookup [] =
     Inr ([\<lparr>declId = 1, declClass = Class_TypeDecl, getDeclContext = 5\<rparr>],
          [(''Widget'', LookupOrdinaryName)])"
  by (simp add: lookupValue_def endswith_def importName_def isSwiftReservedName_def demoEnv_def
      importMacroByName_def demoLookup_def demoDecl_def isa_ValueDecl_def isa_TypeDecl_def)



text \<open>
  The name \<open>trueProto\<close> ends in \<open>Proto\<close>; its prefix \<open>true\<close> is reserved and does
  not translate, so \<open>lookupValue\<close> returns without a lookup of any kind.
\<close>

lemma lookupValue_trueProto_no_lookup:
  "endswith ''trueProto'' ''Proto''
   \<and> take (length ''trueProto'' - 5) ''trueProto'' = ''true''
   \<and> lookupValue demoEnv None [] ''trueProto'' UnqualifiedLookup [] = Inr ([], [])"
  by (simp add: lookupValue_def endswith_def importName_def isSwiftReservedName_def demoEnv_def)

lemma importLookupResult_FoundType_eq:
  assumes "importLookupResult E decls (results, ft) = (rs, ft')"
  shows "ft' = (ft \<or> (\<exists>d \<in> set decls. accepted E d \<and> typeLike E d))"
  using importLookupResult_FoundType [of E decls results ft] assms by simp

text \<open>
  Claim C4 (tag fallback exclusivity). Whenever \<open>lookupValue\<close> returns, it has asked
  Clang for a tag name exactly when the lookup was reached (the access path is empty
  or starts with the name), the name has no \<open>Proto\<close> suffix (the mode is ordinary),
  the name translates, and no declaration of the ordinary lookup is both accepted and
  type-like. So an accepted type-like result of the ordinary lookup rules the tag
  lookup out.
\<close>

theorem tag_fallback_exclusive:
  assumes "lookupValue E M accessPath name k results = Inr (res, calls)"
  shows "(\<exists>n. (n, LookupTagName) \<in> set calls) \<longleftrightarrow>
           ((accessPath = [] \<or> hd accessPath = name)
            \<and> \<not> endswith name ''Proto''
            \<and> importName E name \<noteq> None
            \<and> \<not> (\<exists>d \<in> set (foundDecls E name LookupOrdinaryName). accepted E d \<and> typeLike E d))"
proof (cases "length accessPath \<le> 1 \<and> (accessPath = [] \<or> hd accessPath = name)")
  case False
  with assms show ?thesis
    by (cases accessPath) (auto simp: lookupValue_def split: if_splits)
next
  case True
  note reached = this
  show ?thesis
  proof (cases "endswith name ''Proto''")
    case True
    with assms reached show ?thesis
      by (auto simp: lookupValue_def Let_def split: if_splits option.splits prod.splits)
  next
    case False
    note ordinary = this
    show ?thesis
    proof (cases "importName E name")
      case None
      with assms reached ordinary show ?thesis
        by (auto simp: lookupValue_def)
    next
      case (Some cn)
      then have cn: "cn = name" by (rule importName_Some)
      obtain rs ft where
        r: "(case LookupName E name LookupOrdinaryName of
               None \<Rightarrow> (importMacroByName E name name results, False)
             | Some decls \<Rightarrow>
                 importLookupResult E decls (importMacroByName E name name results, False))
            = (rs, ft)"
        by (cases "case LookupName E name LookupOrdinaryName of
               None \<Rightarrow> (importMacroByName E name name results, False)
             | Some decls \<Rightarrow>
                 importLookupResult E decls (importMacroByName E name name results, False)") blast
      have ft: "ft = (\<exists>d \<in> set (foundDecls E name LookupOrdinaryName). accepted E d \<and> typeLike E d)"
      proof (cases "LookupName E name LookupOrdinaryName")
        case None
        with r show ?thesis by (simp add: foundDecls_def)
      next
        case (Some decls)
        with r importLookupResult_FoundType_eq [of E decls _ False rs ft]
        show ?thesis by (simp add: foundDecls_def)
      qed
      from assms reached ordinary Some cn r
      have "calls = (if \<not> ft then [(name, LookupOrdinaryName), (name, LookupTagName)]
                     else [(name, LookupOrdinaryName)])"
        by (auto simp: lookupValue_def Let_def split: if_splits option.splits)
      with ft reached ordinary Some show ?thesis
        by auto
    qed
  qed
qed

lemma Point_lookup:
  "lookupValue demoEnv None [] ''Point'' UnqualifiedLookup [] =
     Inr ([\<lparr>declId = 3, declClass = Class_TypeDecl, getDeclContext = 5\<rparr>],
          [(''Point'', LookupOrdinaryName)])"
  by (simp add: lookupValue_def endswith_def importName_def isSwiftReservedName_def demoEnv_def
      importMacroByName_def demoLookup_def demoDecl_def isa_ValueDecl_def isa_TypeDecl_def)

lemma origin_lookup:
  "lookupValue demoEnv None [] ''origin'' UnqualifiedLookup [] =
     Inr ([\<lparr>declId = 7, declClass = Class_ValueDecl, getDeclContext = 5\<rparr>],
          [(''origin'', LookupOrdinaryName), (''origin'', LookupTagName)])"
  by (simp add: lookupValue_def endswith_def importName_def isSwiftReservedName_def demoEnv_def
      importMacroByName_def demoLookup_def demoDecl_def isa_ValueDecl_def isa_TypeDecl_def)

theorem tag_fallback_exclusive_witness:
  "lookupValue demoEnv None [] ''Point'' UnqualifiedLookup [] =
     Inr ([\<lparr>declId = 3, declClass = Class_TypeDecl, getDeclContext = 5\<rparr>],
          [(''Point'', LookupOrdinaryName)])
   \<and> LookupName demoEnv ''Point'' LookupTagName = Some [4]
   \<and> (\<exists>d \<in> set (foundDecls demoEnv ''Point'' LookupOrdinaryName).
         accepted demoEnv d \<and> typeLike demoEnv d)
   \<and> lookupValue demoEnv None [] ''origin'' UnqualifiedLookup [] =
     Inr ([\<lparr>declId = 7, declClass = Class_ValueDecl, getDeclContext = 5\<rparr>],
          [(''origin'', LookupOrdinaryName), (''origin'', LookupTagName)])
   \<and> \<not> (\<exists>d \<in> set (foundDecls demoEnv ''origin'' LookupOrdinaryName).
         accepted demoEnv d \<and> typeLike demoEnv d)"
proof -
  have t: "LookupName demoEnv ''Point'' LookupTagName = Some [4]"
    by (simp add: demoEnv_def demoLookup_def)
  from tag_fallback_exclusive [OF Point_lookup]
  have p: "\<exists>d \<in> set (foundDecls demoEnv ''Point'' LookupOrdinaryName).
         accepted demoEnv d \<and> typeLike demoEnv d"
    by (simp add: endswith_def importName_def isSwiftReservedName_def demoEnv_def)
  from tag_fallback_exclusive [OF origin_lookup]
  have q: "\<not> (\<exists>d \<in> set (foundDecls demoEnv ''origin'' LookupOrdinaryName).
         accepted demoEnv d \<and> typeLike demoEnv d)"
    by simp
  from Point_lookup origin_lookup t p q show ?thesis by simp
qed

text \<open>
  Claim C5 (shim exclusion) at the name \<open>Shim\<close>: the ordinary lookup finds nothing,
  the tag lookup finds a record whose import lives in the standard library module, and
  the loop over the tag results pushes it: the result of \<open>lookupValue\<close> holds a
  declaration that the acceptance test refuses.
\<close>

theorem tag_fallback_returns_stdlib_decl:
  "lookupValue demoEnv None [] ''Shim'' UnqualifiedLookup [] =
     Inr ([\<lparr>declId = 6, declClass = Class_TypeDecl, getDeclContext = getSwiftModule demoEnv\<rparr>],
          [(''Shim'', LookupOrdinaryName), (''Shim'', LookupTagName)])
   \<and> \<not> accepted demoEnv 6"
  by (simp add: lookupValue_def endswith_def importName_def isSwiftReservedName_def demoEnv_def
      importMacroByName_def demoLookup_def demoDecl_def isa_ValueDecl_def isa_TypeDecl_def
      accepted_def)

subsection \<open>The adapter module and the forced traversal\<close>

lemma getTopLevelModule_top: "\<not> isSubModule (getTopLevelModule M)"
  by (induction M rule: getTopLevelModule.induct) (simp_all add: isSubModule_def)

lemma getAdapterModule_topLevel:
  assumes "self < length (Modules s)" and "isTopLevel (Modules s ! self)"
  shows "getAdapterModule E self s =
     (if \<not> getInt (adapterModule (Modules s ! self)) then
        (let nm = Name (Modules s ! self);
             s1 = s\<lparr>getModule_calls := getModule_calls s @ [nm]\<rparr>
         in case Ctx_getModule E s nm of
              None \<Rightarrow> Some (Inl AssertionFailure)
            | Some adapter \<Rightarrow>
                if isa_ClangModule adapter
                then Some (Inr (None, setAdapter self None s1))
                else
                  (let sharedModuleRef = LoadedModules s1 nm in
                   if \<not> (sharedModuleRef = None \<or> sharedModuleRef = Some adapter
                          \<or> sharedModuleRef = Some (ClangModuleRef self))
                   then Some (Inl AssertionFailure)
                   else Some (Inr (Some adapter,
                          setAdapter self (Some adapter)
                            (s1\<lparr>LoadedModules := (LoadedModules s1)(nm \<mapsto> adapter)\<rparr>)))))
      else Some (Inr (getPointer (adapterModule (Modules s ! self)), s)))"
  using assms by (subst getAdapterModule.simps) simp

lemma getAdapterModule_subModule:
  assumes "self < length (Modules s)" and "\<not> isTopLevel (Modules s ! self)"
  shows "getAdapterModule E self s =
     getAdapterModule E
          (fst (getWrapperModule (getTopLevelModule (clangModule (Modules s ! self)))
                  (Some (Comp (Modules s ! self))) s))
          (snd (getWrapperModule (getTopLevelModule (clangModule (Modules s ! self)))
                  (Some (Comp (Modules s ! self))) s))"
  using assms by (subst getAdapterModule.simps) simp



lemma getAdapterModule_topLevel_result:
  assumes "self < length (Modules s)" and "isTopLevel (Modules s ! self)"
    and "getAdapterModule E self s = Some (Inr (a, s1))"
  shows "length (Modules s1) = length (Modules s)"
    and "isTopLevel (Modules s1 ! self)"
    and "adapterModule (Modules s1 ! self) = \<lparr>getPointer = a, getInt = True\<rparr>"
    and "ModuleWrappers s1 = ModuleWrappers s"
    and "\<forall>i. i \<noteq> self \<longrightarrow> Modules s1 ! i = Modules s ! i"
    and "getModule_calls s1 = getModule_calls s
         \<or> getModule_calls s1 = getModule_calls s @ [Name (Modules s ! self)]"
  using assms
  by (auto simp: getAdapterModule_topLevel Let_def setAdapter_def isTopLevel_def
      split: option.splits if_splits)






lemma cacheEntry_cong: "ModuleWrappers s1 = ModuleWrappers s \<Longrightarrow> cacheEntry s1 M = cacheEntry s M"
  by (simp add: cacheEntry_def)








lemma Kit_flag_before:
  "cacheEntry (snd (getWrapperModule Kit None emptyImpl)) Kit
     = \<lparr>getPointer = Some 0, getInt = False\<rparr>"
  by (simp add: Kit_wrapped cacheEntry_def)

text \<open>
  Claim C7 (forced-import traversal) at a wrapper that \<open>getWrapperModule\<close> created:
  its flag is false; \<open>loadModule\<close> on its path returns it and sets the flag, yet no
  traversal was run and no further wrapper exists, where the same \<open>loadModule\<close> in
  the empty state creates the wrapper, traverses it and so wraps \<open>Dep\<close>.
\<close>

theorem cached_wrapper_forced_without_traversal:
  "cacheEntry (snd (getWrapperModule Kit None emptyImpl)) Kit
     = \<lparr>getPointer = Some 0, getInt = False\<rparr>
   \<and> fst (loadModule demoEnv [''Kit''] (snd (getWrapperModule Kit None emptyImpl))) = Some 0
   \<and> cacheEntry (snd (loadModule demoEnv [''Kit''] (snd (getWrapperModule Kit None emptyImpl)))) Kit
       = \<lparr>getPointer = Some 0, getInt = True\<rparr>
   \<and> Traversed (snd (loadModule demoEnv [''Kit''] (snd (getWrapperModule Kit None emptyImpl)))) = []
   \<and> Modules (snd (loadModule demoEnv [''Kit''] (snd (getWrapperModule Kit None emptyImpl))))
       = [ClangModule_ctor ''Kit'' 0 Kit]
   \<and> Traversed (snd (loadModule demoEnv [''Kit''] emptyImpl)) = [0]
   \<and> Modules (snd (loadModule demoEnv [''Kit''] emptyImpl))
       = [ClangModule_ctor ''Kit'' 0 Kit, ClangModule_ctor ''Dep'' 1 Dep]"
proof -
  have l: "\<And>n. CI_loadModule demoEnv n [''Kit''] = Some Kit"
    by (simp add: demoEnv_def)
  have "loadModule demoEnv [''Kit''] (snd (getWrapperModule Kit None emptyImpl))
          = (Some 0, emptyImpl\<lparr>ModuleWrappers := [Kit \<mapsto> \<lparr>getPointer = Some 0, getInt = True\<rparr>],
               ImportCounter := 1, Modules := [ClangModule_ctor ''Kit'' 0 Kit],
               Components := 1\<rparr>)"
    unfolding Kit_wrapped
    by (simp add: loadModule_def l cacheEntry_def setEntry_def emptyImpl_def)
  then show ?thesis
    by (simp add: Kit_flag_before Kit_loaded) (simp add: cacheEntry_def emptyImpl_def)
qed


text \<open>
  The flag of a cache entry is never reset: not by \<open>getWrapperModule\<close>, and not by
  \<open>loadModule\<close> when the traversal does not reset one.
\<close>

lemma getWrapperModule_getInt:
  "getInt (cacheEntry s M) \<Longrightarrow> getInt (cacheEntry (snd (getWrapperModule M' c s)) M)"
  by (auto simp: getWrapperModule_def Let_def new_Component_def new_ClangModule_def setEntry_def
      cacheEntry_def nullPair_def split: option.splits)

lemma loadModule_getInt:
  assumes "\<forall>w p t N. getInt (cacheEntry t N) \<longrightarrow> getInt (cacheEntry (visit E w p t) N)"
    and "getInt (cacheEntry s M)"
  shows "getInt (cacheEntry (snd (loadModule E path s)) M)"
proof (cases "CI_loadModule E (ImportCounter s) path")
  case None
  with assms(2) show ?thesis
    by (simp add: loadModule_failure_state)
next
  case (Some M')
  show ?thesis
  proof (cases "getPointer (cacheEntry s M')")
    case (Some w)
    with \<open>CI_loadModule E (ImportCounter s) path = Some M'\<close> assms(2) show ?thesis
      by (simp add: loadModule_def Let_def setEntry_def cacheEntry_def)
  next
    case None
    have c: "\<And>t. cacheEntry (bumpGeneration (t\<lparr>Generation := Generation t + 1\<rparr>)) M = cacheEntry t M"
      by (simp add: cacheEntry_def bumpGeneration_def)
    from None \<open>CI_loadModule E (ImportCounter s) path = Some M'\<close> assms show ?thesis
      by (simp add: loadModule_def Let_def new_Component_def new_ClangModule_def
          forAllVisibleModules_def c)
         (simp add: setEntry_def cacheEntry_def)
  qed
qed

subsection \<open>The cache invariant\<close>

text \<open>
  The readiness that the adapter theorem asks for holds of every allocated wrapper in
  a state with a consistent cache; the empty state is one, and \<open>getWrapperModule\<close>
  and a returning \<open>getAdapterModule\<close> lead from one to another.
\<close>

lemma cacheConsistent_ready:
  "cacheConsistent s \<Longrightarrow> self < length (Modules s) \<Longrightarrow> topLevelCached s self"
  by (auto simp: cacheConsistent_def topLevelCached_def split: option.splits)

lemma cacheConsistent_emptyImpl: "cacheConsistent emptyImpl"
  by (simp add: cacheConsistent_def cacheEntry_def emptyImpl_def nullPair_def)

lemma getWrapperModule_cacheConsistent:
  assumes "cacheConsistent s"
  shows "cacheConsistent (snd (getWrapperModule M c s))"
proof (cases "getPointer (cacheEntry s M)")
  case (Some w)
  with assms show ?thesis by (simp add: getWrapperModule_hit)
next
  case None
  note new = getWrapperModule_miss_new [OF None, of c]
  show ?thesis
    unfolding cacheConsistent_def
  proof (intro allI impI)
    fix N t
    assume h: "getPointer (cacheEntry (snd (getWrapperModule M c s)) N) = Some t"
    show "t < length (Modules (snd (getWrapperModule M c s)))
          \<and> clangModule (Modules (snd (getWrapperModule M c s)) ! t) = N"
    proof (cases "N = M")
      case True
      with h getWrapperModule_entry [of M c s] new show ?thesis
        by (auto simp: ClangModule_ctor_def nth_append)
    next
      case False
      with None have "cacheEntry (snd (getWrapperModule M c s)) N = cacheEntry s N"
        by (simp add: getWrapperModule_def Let_def new_Component_def new_ClangModule_def
            setEntry_def cacheEntry_def split: option.splits)
      with h assms have "t < length (Modules s) \<and> clangModule (Modules s ! t) = N"
        by (simp add: cacheConsistent_def)
      with new(2) show ?thesis by (simp add: nth_append)
    qed
  qed
qed

lemma getAdapterModule_ready_after:
  assumes "cacheConsistent s" and "self < length (Modules s)"
    and "getAdapterModule E self s = Some (Inr (a, s1))"
  shows "cacheConsistent s1"
proof -
  have top: "\<And>t u. cacheConsistent u \<Longrightarrow> t < length (Modules u) \<Longrightarrow> isTopLevel (Modules u ! t)
      \<Longrightarrow> getAdapterModule E t u = Some (Inr (a, s1)) \<Longrightarrow> cacheConsistent s1"
  proof -
    fix t u
    assume c: "cacheConsistent u" and v: "t < length (Modules u)"
      and tl: "isTopLevel (Modules u ! t)" and r: "getAdapterModule E t u = Some (Inr (a, s1))"
    note f = getAdapterModule_topLevel_result [OF v tl r]
    have m: "\<And>i. clangModule (Modules s1 ! i) = clangModule (Modules u ! i)"
    proof -
      fix i
      show "clangModule (Modules s1 ! i) = clangModule (Modules u ! i)"
      proof (cases "i = t")
        case True
        from v tl r show ?thesis unfolding True
          by (auto simp: getAdapterModule_topLevel Let_def setAdapter_def
              split: option.splits if_splits)
      next
        case False
        with f(5) show ?thesis by simp
      qed
    qed
    from c show "cacheConsistent s1"
      by (simp add: cacheConsistent_def cacheEntry_cong [OF f(4)] f(1) m)
  qed
  show ?thesis
  proof (cases "isTopLevel (Modules s ! self)")
    case True
    from top [OF assms(1,2) True assms(3)] show ?thesis .
  next
    case False
    let ?g = "getWrapperModule (getTopLevelModule (clangModule (Modules s ! self)))
                (Some (Comp (Modules s ! self))) s"
    have c': "cacheConsistent (snd ?g)"
      by (rule getWrapperModule_cacheConsistent [OF assms(1)])
    from getWrapperModule_entry [of _ _ s] c'
    have w: "fst ?g < length (Modules (snd ?g))"
      and k: "clangModule (Modules (snd ?g) ! fst ?g)
                = getTopLevelModule (clangModule (Modules s ! self))"
      unfolding cacheConsistent_def by blast+
    from k have tl: "isTopLevel (Modules (snd ?g) ! fst ?g)"
      by (simp add: isTopLevel_def getTopLevelModule_top)
    from assms(3) getAdapterModule_subModule [OF assms(2) False, of E]
    have "getAdapterModule E (fst ?g) (snd ?g) = Some (Inr (a, s1))"
      by simp
    from top [OF c' w tl this] show ?thesis .
  qed
qed

end
